theory Spec2Isabelle
  imports Main "HOL-Library.Sublist" "HOL-Library.Multiset"
begin

section \<open>Strings and truthiness\<close>

text \<open>
  A JavaScript string is modelled as a HOL string, the bytes of its UTF-8 form, so a
  letter outside ASCII is several characters. A string is falsy exactly when it is
  empty, a number exactly when it is zero, \<open>null\<close> and \<open>undefined\<close> always;
  \<open>a || b\<close> is \<open>a\<close> when \<open>a\<close> is truthy and \<open>b\<close> otherwise.
\<close>

definition or_string :: "string option \<Rightarrow> string \<Rightarrow> string" where
  "or_string a b = (case a of None \<Rightarrow> b | Some t \<Rightarrow> (if t \<noteq> [] then t else b))"

definition or_number :: "int \<Rightarrow> int \<Rightarrow> int" where
  "or_number a b = (if a \<noteq> 0 then a else b)"

text \<open>
  \<open>String.prototype.toLowerCase\<close> is a built-in that lowers the letters of every
  script. It is a parameter \<open>toLowerCase\<close> of the functions that call it, and every
  property below holds for every function in its place. On text that is all ASCII the
  built-in lowers the letters \<open>A\<close> to \<open>Z\<close> and leaves the rest; that instance is
  \<open>ascii_toLowerCase\<close>, which serves to run the examples.
\<close>

definition ascii_lower_char :: "char \<Rightarrow> char" where
  "ascii_lower_char c =
     (let n = (of_char c :: nat) in if 65 \<le> n \<and> n \<le> 90 then char_of (n + 32) else c)"

definition ascii_toLowerCase :: "string \<Rightarrow> string" where
  "ascii_toLowerCase s = map ascii_lower_char s"

text \<open>\<open>t.includes(q)\<close>: \<open>q\<close> occurs in \<open>t\<close> as a contiguous run of characters.\<close>

fun includes_str :: "string \<Rightarrow> string \<Rightarrow> bool" where
  "includes_str [] q = (q = [])"
| "includes_str (c # cs) q = (prefix q (c # cs) \<or> includes_str cs q)"

section \<open>The session sidebar (session-sidebar.tsx)\<close>

record SessionItem =
  id_s :: string
  title :: "string option"
  repoOwner :: string
  repoName :: string
  status_s :: string
  createdAt :: int
  updatedAt :: int

text \<open>The template literal \<open>`${session.repoOwner}/${session.repoName}`\<close>.\<close>

definition repoInfo :: "SessionItem \<Rightarrow> string" where
  "repoInfo session = repoOwner session @ ''/'' @ repoName session"

text \<open>\<open>session.updatedAt || session.createdAt\<close>, computed in the comparator, in the
  partition loop and in \<open>SessionListItem\<close>.\<close>

definition timestamp :: "SessionItem \<Rightarrow> int" where
  "timestamp session = or_number (updatedAt session) (createdAt session)"

text \<open>The callback of \<open>sessions.filter\<close>, with the built-in \<open>toLowerCase\<close> as a
  parameter.\<close>

definition matchesQuery :: "(string \<Rightarrow> string) \<Rightarrow> string \<Rightarrow> SessionItem \<Rightarrow> bool" where
  "matchesQuery toLowerCase searchQuery session =
     (if searchQuery = [] then True
      else
        let query = toLowerCase searchQuery;
            title_l = or_string (map_option toLowerCase (title session)) [];
            repo = toLowerCase (repoInfo session)
        in includes_str title_l query \<or> includes_str repo query)"

text \<open>
  \<open>Array.prototype.sort\<close> with a comparator: a stable sort that puts \<open>a\<close> before
  \<open>b\<close> when \<open>cmp a b\<close> is negative and keeps the input order when it is zero.
\<close>

fun insert_cmp :: "('a \<Rightarrow> 'a \<Rightarrow> int) \<Rightarrow> 'a \<Rightarrow> 'a list \<Rightarrow> 'a list" where
  "insert_cmp cmp a [] = [a]"
| "insert_cmp cmp a (b # bs) =
     (if cmp a b \<le> 0 then a # b # bs else b # insert_cmp cmp a bs)"

definition sort_cmp :: "('a \<Rightarrow> 'a \<Rightarrow> int) \<Rightarrow> 'a list \<Rightarrow> 'a list" where
  "sort_cmp cmp xs = foldr (insert_cmp cmp) xs []"

text \<open>The comparator of the sidebar: \<open>bTime - aTime\<close>.\<close>

definition compareSessions :: "SessionItem \<Rightarrow> SessionItem \<Rightarrow> int" where
  "compareSessions a b = (let aTime = timestamp a; bTime = timestamp b in bTime - aTime)"

text \<open>
  The loop \<open>for (const session of sorted)\<close>, pushing each session to the end of one of
  the two arrays. \<open>isInactiveSession\<close> is imported from \<open>@/lib/time\<close> and is a
  parameter here.
\<close>

fun partitionSessions ::
  "(int \<Rightarrow> bool) \<Rightarrow> SessionItem list \<Rightarrow> SessionItem list \<times> SessionItem list
     \<Rightarrow> SessionItem list \<times> SessionItem list" where
  "partitionSessions isInactiveSession [] (active, inactive) = (active, inactive)"
| "partitionSessions isInactiveSession (session # rest) (active, inactive) =
     (if isInactiveSession (timestamp session)
      then partitionSessions isInactiveSession rest (active, inactive @ [session])
      else partitionSessions isInactiveSession rest (active @ [session], inactive))"

record SessionLists =
  activeSessions :: "SessionItem list"
  inactiveSessions :: "SessionItem list"

text \<open>The body of the \<open>useMemo\<close> of \<open>SessionSidebar\<close>.\<close>

definition reconcile ::
  "(int \<Rightarrow> bool) \<Rightarrow> (string \<Rightarrow> string) \<Rightarrow> SessionItem list \<Rightarrow> string \<Rightarrow> SessionLists" where
  "reconcile isInactiveSession toLowerCase sessions searchQuery =
     (let filtered = filter (matchesQuery toLowerCase searchQuery) sessions;
          sorted_l = sort_cmp compareSessions filtered;
          (active, inactive) = partitionSessions isInactiveSession sorted_l ([], [])
      in \<lparr>activeSessions = active, inactiveSessions = inactive\<rparr>)"

text \<open>\<open>displayTitle\<close> of \<open>SessionListItem\<close>.\<close>

definition displayTitle :: "SessionItem \<Rightarrow> string" where
  "displayTitle session = or_string (title session) (repoInfo session)"

section \<open>JSON values and awaited promises\<close>

text \<open>The values of \<open>JSON.parse\<close>. The handlers never look inside a number, which is
  kept as an integer.\<close>

datatype json =
    JNull
  | JBool bool
  | JNum int
  | JStr string
  | JArr "json list"
  | JObj "(string \<times> json) list"

text \<open>
  \<open>JSON.stringify\<close> of an object literal, as the value its output denotes: a property
  whose value is \<open>undefined\<close> (\<open>None\<close>) is left out, the others keep their order.
\<close>

definition stringify_object :: "(string \<times> json option) list \<Rightarrow> json" where
  "stringify_object props = JObj (List.map_filter (\<lambda>(k, v). map_option (Pair k) v) props)"

text \<open>The property names of a JSON object.\<close>

fun keys_of :: "json \<Rightarrow> string list" where
  "keys_of (JObj kvs) = map fst kvs"
| "keys_of _ = []"

text \<open>\<open>o[k]\<close> on a JSON object, \<open>None\<close> for \<open>undefined\<close>.\<close>

fun property :: "json \<Rightarrow> string \<Rightarrow> json option" where
  "property (JObj kvs) k = map_of kvs k"
| "property _ k = None"

text \<open>\<open>await p\<close> either throws the reason of the rejection (\<open>Inl\<close>) or gives the
  value (\<open>Inr\<close>).\<close>

type_synonym 'a awaited = "string + 'a"

text \<open>A \<open>Response\<close> of the Fetch API: \<open>ok\<close> is true for the statuses 200 to 299.\<close>

record fetch_response =
  status :: nat
  text_r :: "string awaited"
  json_r :: "json awaited"

definition ok :: "fetch_response \<Rightarrow> bool" where
  "ok response = (200 \<le> status response \<and> status response \<le> 299)"

section \<open>The session route (api/sessions/[id]/route.ts)\<close>

record auth_session =
  accessToken :: "string option"

text \<open>\<open>session?.accessToken\<close>.\<close>

definition session_accessToken :: "auth_session option \<Rightarrow> string option" where
  "session_accessToken session = (case session of None \<Rightarrow> None | Some s \<Rightarrow> accessToken s)"

definition truthy_string :: "string option \<Rightarrow> bool" where
  "truthy_string a = (case a of None \<Rightarrow> False | Some t \<Rightarrow> t \<noteq> [])"

record next_response =
  nr_body :: json
  nr_status :: nat

text \<open>
  \<open>NextResponse.json(body, { status })\<close>; the status is 200 when none is given. It builds
  a \<open>Response\<close> of the Fetch API with a body, which throws a \<open>RangeError\<close> for a
  status outside 200 to 599 and a \<open>TypeError\<close> for a status that allows no body (101,
  103, 204, 205, 304).
\<close>

definition null_body_status :: "nat \<Rightarrow> bool" where
  "null_body_status st = (st = 101 \<or> st = 103 \<or> st = 204 \<or> st = 205 \<or> st = 304)"

definition NextResponse_json :: "json \<Rightarrow> nat \<Rightarrow> string + next_response" where
  "NextResponse_json b st =
     (if st < 200 \<or> 599 < st then Inl ''RangeError''
      else if null_body_status st then Inl ''TypeError''
      else Inr \<lparr>nr_body = b, nr_status = st\<rparr>)"

record cp_call =
  cp_path :: string
  cp_method :: string

text \<open>What one run of the handler does: the response it returns (\<open>Inl\<close> if it throws
  instead), the calls it made to the control-plane client and the lines it wrote with
  \<open>console.error\<close>.\<close>

record handler_run =
  returned :: "string + next_response"
  cp_calls :: "cp_call list"
  console_error :: "(string \<times> string) list"

text \<open>The body of the \<open>try\<close> block, after \<open>controlPlaneFetch\<close> has been called.\<close>

definition try_DELETE :: "fetch_response awaited \<Rightarrow> string + next_response" where
  "try_DELETE fetched =
     (case fetched of
        Inl e \<Rightarrow> Inl e
      | Inr response \<Rightarrow>
          if \<not> ok response then
            (case text_r response of
               Inl e \<Rightarrow> Inl e
             | Inr error \<Rightarrow>
                 NextResponse_json
                   (JObj [(''error'', JStr (or_string (Some error) ''Failed to delete session''))])
                   (status response))
          else
            (case json_r response of
               Inl e \<Rightarrow> Inl e
             | Inr data \<Rightarrow> NextResponse_json data 200))"

definition DELETE ::
  "auth_session option \<Rightarrow> string \<Rightarrow> (cp_call \<Rightarrow> fetch_response awaited) \<Rightarrow> handler_run" where
  "DELETE session ident controlPlaneFetch =
     (if \<not> truthy_string (session_accessToken session) then
        \<lparr>returned = NextResponse_json (JObj [(''error'', JStr ''Unauthorized'')]) 401,
         cp_calls = [], console_error = []\<rparr>
      else
        let call = \<lparr>cp_path = ''/sessions/'' @ ident, cp_method = ''DELETE''\<rparr> in
        case try_DELETE (controlPlaneFetch call) of
          Inr res \<Rightarrow> \<lparr>returned = Inr res, cp_calls = [call], console_error = []\<rparr>
        | Inl error \<Rightarrow>
            \<lparr>returned = NextResponse_json (JObj [(''error'', JStr ''Failed to delete session'')]) 500,
             cp_calls = [call],
             console_error = [(''Failed to delete session:'', error)]\<rparr>)"

section \<open>The session creation form (session/new/page.tsx)\<close>

record form_state =
  selectedRepo :: string
  title_f :: string
  selectedModel :: string
  error_f :: string
  creating :: bool

text \<open>The initial values of the \<open>useState\<close> hooks.\<close>

definition initial_form :: form_state where
  "initial_form =
     \<lparr>selectedRepo = [], title_f = [], selectedModel = ''claude-haiku-4-5'',
      error_f = [], creating = False\<rparr>"

text \<open>\<open>s.split(sep)\<close> for a separator of one character: the pieces between the
  separators, in order; never the empty array.\<close>

function split :: "string \<Rightarrow> char \<Rightarrow> string list" where
  "split s sep =
     (case dropWhile (\<lambda>c. c \<noteq> sep) s of
        [] \<Rightarrow> [takeWhile (\<lambda>c. c \<noteq> sep) s]
      | _ # rest \<Rightarrow> takeWhile (\<lambda>c. c \<noteq> sep) s # split rest sep)"
  by pat_completeness auto
termination
proof (relation "measure (\<lambda>(s, sep). length s)")
  show "wf (measure (\<lambda>(s, sep). length s))" by simp
next
  fix s :: string and sep x21 x22
  assume "dropWhile (\<lambda>c. c \<noteq> sep) s = x21 # x22"
  then have "length (x21 # x22) \<le> length s"
    using length_dropWhile_le [of "\<lambda>c. c \<noteq> sep" s] by simp
  then show "((x22, sep), (s, sep)) \<in> measure (\<lambda>(s, sep). length s)" by simp
qed

declare split.simps [simp del]

text \<open>Array destructuring \<open>const [owner, name] = xs\<close>: an element, or \<open>undefined\<close>
  past the end.\<close>

definition element :: "'a list \<Rightarrow> nat \<Rightarrow> 'a option" where
  "element xs i = (if i < length xs then Some (xs ! i) else None)"

record fetch_request =
  url :: string
  method_r :: string
  headers :: "(string \<times> string) list"
  body :: json

text \<open>
  What the handler sees of the answer to its request: \<open>fetch\<close>, \<open>res.json()\<close> or a
  property read throws; or \<open>res.ok\<close> holds and \<open>`${data.sessionId}`\<close> is the given
  string; or \<open>res.ok\<close> fails and \<open>data.error\<close> is the given string (\<open>None\<close> for
  \<open>undefined\<close>).
\<close>

datatype create_reply = Throws | Created string | Refused "string option"

record submit_run =
  state :: form_state
  requests :: "fetch_request list"
  pushed :: "string option"

definition handleSubmit :: "form_state \<Rightarrow> create_reply \<Rightarrow> submit_run" where
  "handleSubmit st reply =
     (if selectedRepo st = [] then
        \<lparr>state = st\<lparr>error_f := ''Please select a repository''\<rparr>, requests = [], pushed = None\<rparr>
      else
        let st1 = st\<lparr>creating := True, error_f := []\<rparr>;
            parts = split (selectedRepo st) CHR ''/'';
            owner = element parts 0;
            name = element parts 1;
            request =
              \<lparr>url = ''/api/sessions'', method_r = ''POST'',
               headers = [(''Content-Type'', ''application/json'')],
               body = stringify_object
                 [(''repoOwner'', map_option JStr owner),
                  (''repoName'', map_option JStr name),
                  (''title'', if title_f st \<noteq> [] then Some (JStr (title_f st)) else None),
                  (''model'', Some (JStr (selectedModel st)))]\<rparr>
        in case reply of
             Created sessionId \<Rightarrow>
               \<lparr>state = st1\<lparr>creating := False\<rparr>, requests = [request],
                pushed = Some (''/session/'' @ sessionId)\<rparr>
           | Refused e \<Rightarrow>
               \<lparr>state = st1\<lparr>error_f := or_string e ''Failed to create session'', creating := False\<rparr>,
                requests = [request], pushed = None\<rparr>
           | Throws \<Rightarrow>
               \<lparr>state = st1\<lparr>error_f := ''Failed to create session'', creating := False\<rparr>,
                requests = [request], pushed = None\<rparr>)"

section \<open>The specification's own words\<close>

text \<open>
  The filter as the specification words it: a session is kept iff the query is empty, or
  the lowercased query is a substring of the lowercased title, or of the lowercased
  \<open>owner/name\<close> string. A session without a title has no title to match. The
  lowering is the same parameter as in the code.
\<close>

definition spec_keeps :: "(string \<Rightarrow> string) \<Rightarrow> string \<Rightarrow> SessionItem \<Rightarrow> bool" where
  "spec_keeps toLowerCase q session =
     (q = [] \<or>
      (case title session of
         None \<Rightarrow> False
       | Some t \<Rightarrow> sublist (toLowerCase q) (toLowerCase t)) \<or>
      sublist (toLowerCase q) (toLowerCase (repoOwner session @ ''/'' @ repoName session)))"

text \<open>Splitting on the first \<open>/\<close> as the specification words it: the text before the
  first \<open>/\<close> and the text after it.\<close>

definition spec_owner :: "string \<Rightarrow> string" where
  "spec_owner v = takeWhile (\<lambda>c. c \<noteq> CHR ''/'') v"

definition spec_name :: "string \<Rightarrow> string" where
  "spec_name v = drop 1 (dropWhile (\<lambda>c. c \<noteq> CHR ''/'') v)"

text \<open>The value of property \<open>k\<close> in the body of each request of a run, in order.\<close>

definition posted :: "submit_run \<Rightarrow> string \<Rightarrow> json option list" where
  "posted run k = map (\<lambda>request. property (body request) k) (requests run)"

text \<open>
  Modelled from the spec: \<open>isInactiveSession\<close> of \<open>@/lib/time\<close>, which the sidebar
  imports and whose code is not at hand. The specification says that a session is
  inactive if its effective timestamp is older than a fixed staleness threshold, and that
  the class is a function of that timestamp and the threshold alone. It gives the
  threshold no value, so the threshold is an argument.
\<close>

definition isInactiveSession_spec :: "int \<Rightarrow> int \<Rightarrow> bool" where
  "isInactiveSession_spec threshold t = (t < threshold)"

text \<open>The two sessions of the specification's example, with the fields it leaves open
  filled in.\<close>

definition example_a_b :: SessionItem where
  "example_a_b =
     \<lparr>id_s = ''s1'', title = None, repoOwner = ''a'', repoName = ''b'',
      status_s = ''created'', createdAt = 50, updatedAt = 100\<rparr>"

definition example_X :: SessionItem where
  "example_X =
     \<lparr>id_s = ''s2'', title = Some ''X'', repoOwner = ''c'', repoName = ''d'',
      status_s = ''created'', createdAt = 60, updatedAt = 200\<rparr>"

section \<open>Properties of the sidebar\<close>

lemma includes_sublist: "includes_str t q \<longleftrightarrow> sublist q t"
  by (induction t) (auto simp: sublist_Cons_right)

lemma set_insert_cmp: "set (insert_cmp cmp a bs) = insert a (set bs)"
  by (induction bs) auto

lemma mset_insert_cmp: "mset (insert_cmp cmp a bs) = add_mset a (mset bs)"
  by (induction bs) auto

lemma mset_sort_cmp: "mset (sort_cmp cmp xs) = mset xs"
  unfolding sort_cmp_def by (induction xs) (simp_all add: mset_insert_cmp)

lemma set_sort_cmp: "set (sort_cmp cmp xs) = set xs"
  using mset_sort_cmp [of cmp xs] by (metis set_mset_mset)

lemma partitionSessions_filter:
  "partitionSessions f xs (a, i) =
     (a @ filter (\<lambda>s. \<not> f (timestamp s)) xs, i @ filter (\<lambda>s. f (timestamp s)) xs)"
  by (induction xs arbitrary: a i) simp_all

lemma activeSessions_reconcile:
  "activeSessions (reconcile f lower S q) =
     filter (\<lambda>s. \<not> f (timestamp s))
       (sort_cmp compareSessions (filter (matchesQuery lower q) S))"
  by (simp add: reconcile_def partitionSessions_filter Let_def)

lemma inactiveSessions_reconcile:
  "inactiveSessions (reconcile f lower S q) =
     filter (\<lambda>s. f (timestamp s))
       (sort_cmp compareSessions (filter (matchesQuery lower q) S))"
  by (simp add: reconcile_def partitionSessions_filter Let_def)

lemma matchesQuery_spec: "matchesQuery lower q s = spec_keeps lower q s"
proof (cases "lower q = []")
  case True
  then show ?thesis
    by (simp add: matchesQuery_def spec_keeps_def includes_sublist Let_def)
next
  case False
  then show ?thesis
    by (cases "title s")
       (auto simp: matchesQuery_def spec_keeps_def or_string_def includes_sublist repoInfo_def
          Let_def)
qed

lemma sorted_insert_cmp_timestamp:
  "sorted_wrt (\<lambda>a b. timestamp b \<le> timestamp a) bs
   \<Longrightarrow> sorted_wrt (\<lambda>a b. timestamp b \<le> timestamp a) (insert_cmp compareSessions a bs)"
  by (induction bs) (auto simp: set_insert_cmp compareSessions_def)

lemma sorted_sort_cmp_timestamp:
  "sorted_wrt (\<lambda>a b. timestamp b \<le> timestamp a) (sort_cmp compareSessions xs)"
  unfolding sort_cmp_def by (induction xs) (simp_all add: sorted_insert_cmp_timestamp)

lemma timestamp_examples: "timestamp example_a_b = 100" "timestamp example_X = 200"
  by (simp_all add: timestamp_def or_number_def example_a_b_def example_X_def)

lemma sort_examples:
  "sort_cmp compareSessions [example_a_b, example_X] = [example_X, example_a_b]"
  by (simp add: sort_cmp_def compareSessions_def timestamp_examples)

text \<open>
  Claim C1. For every session collection \<open>S\<close> and every query \<open>q\<close>, the sessions of
  the active list together with those of the inactive list are exactly the sessions of
  \<open>S\<close> that the filter of the specification keeps: \<open>q\<close> is empty, or lowercased \<open>q\<close>
  occurs in the lowercased title, or in the lowercased \<open>repoOwner/repoName\<close>. Nothing is
  gained or dropped, also when sessions are counted with their multiplicity. This holds
  whatever the built-in \<open>toLowerCase\<close> does to a string, so for text of every script.
\<close>

theorem reconcile_keeps_exactly_the_matches:
  "set (activeSessions (reconcile isInactiveSession toLowerCase S q))
     \<union> set (inactiveSessions (reconcile isInactiveSession toLowerCase S q))
   = {s \<in> set S. spec_keeps toLowerCase q s}
   \<and> mset (activeSessions (reconcile isInactiveSession toLowerCase S q))
     + mset (inactiveSessions (reconcile isInactiveSession toLowerCase S q))
   = filter_mset (spec_keeps toLowerCase q) (mset S)"
proof -
  let ?sorted = "sort_cmp compareSessions (filter (matchesQuery toLowerCase q) S)"
  let ?r = "reconcile isInactiveSession toLowerCase S q"
  have m: "mset ?sorted = filter_mset (spec_keeps toLowerCase q) (mset S)"
    by (simp add: mset_sort_cmp matchesQuery_spec [abs_def])
  have parts: "mset (filter (\<lambda>s. \<not> isInactiveSession (timestamp s)) ?sorted)
      + mset (filter (\<lambda>s. isInactiveSession (timestamp s)) ?sorted) = mset ?sorted"
    by (simp add: union_commute)
  have ms: "mset (activeSessions ?r) + mset (inactiveSessions ?r)
      = filter_mset (spec_keeps toLowerCase q) (mset S)"
    unfolding activeSessions_reconcile inactiveSessions_reconcile using parts m by simp
  have "set (activeSessions ?r) \<union> set (inactiveSessions ?r)
      = set_mset (mset (activeSessions ?r) + mset (inactiveSessions ?r))"
    by simp
  also have "\<dots> = {s \<in> set S. spec_keeps toLowerCase q s}"
    unfolding ms by auto
  finally show ?thesis using ms by simp
qed

theorem reconcile_keeps_exactly_the_matches_witness:
  "set (activeSessions
          (reconcile (\<lambda>t. t < 150) ascii_toLowerCase [example_a_b, example_X] ''A/''))
     \<union> set (inactiveSessions
          (reconcile (\<lambda>t. t < 150) ascii_toLowerCase [example_a_b, example_X] ''A/''))
   = {example_a_b}"
proof -
  have k1: "spec_keeps ascii_toLowerCase ''A/'' example_a_b" by code_simp
  have k2: "\<not> spec_keeps ascii_toLowerCase ''A/'' example_X" by code_simp
  have "{s \<in> set [example_a_b, example_X]. spec_keeps ascii_toLowerCase ''A/'' s}
      = {example_a_b}"
    using k1 k2 by auto
  then show ?thesis
    using reconcile_keeps_exactly_the_matches
      [of "\<lambda>t. t < 150" ascii_toLowerCase "[example_a_b, example_X]" "''A/''"]
    by simp
qed

text \<open>
  Claim C2. For every session collection and query, the active list and the inactive list
  are each in descending order of effective timestamp. The effective timestamp of a
  session is \<open>updatedAt\<close> if present, read as the code tests it (a number other than
  zero), else \<open>createdAt\<close>. Each list is the sorted sequence restricted to the sessions
  of its class, so the order of the sorted sequence is kept, and the class of a session
  is the verdict of \<open>isInactiveSession\<close> on its effective timestamp alone.
\<close>

theorem lists_sorted_by_timestamp:
  "sorted_wrt (\<lambda>a b. timestamp a \<ge> timestamp b)
     (activeSessions (reconcile isInactiveSession toLowerCase S q))
   \<and> sorted_wrt (\<lambda>a b. timestamp a \<ge> timestamp b)
     (inactiveSessions (reconcile isInactiveSession toLowerCase S q))
   \<and> timestamp s = (if updatedAt s \<noteq> 0 then updatedAt s else createdAt s)
   \<and> activeSessions (reconcile isInactiveSession toLowerCase S q)
       = filter (\<lambda>s. \<not> isInactiveSession (timestamp s))
           (sort_cmp compareSessions (filter (matchesQuery toLowerCase q) S))
   \<and> inactiveSessions (reconcile isInactiveSession toLowerCase S q)
       = filter (\<lambda>s. isInactiveSession (timestamp s))
           (sort_cmp compareSessions (filter (matchesQuery toLowerCase q) S))
   \<and> sorted_wrt (\<lambda>a b. timestamp a \<ge> timestamp b)
         (sort_cmp compareSessions (filter (matchesQuery toLowerCase q) S))"
proof -
  let ?sorted = "sort_cmp compareSessions (filter (matchesQuery toLowerCase q) S)"
  have srt: "sorted_wrt (\<lambda>a b. timestamp a \<ge> timestamp b) ?sorted"
    by (rule sorted_sort_cmp_timestamp)
  have act: "sorted_wrt (\<lambda>a b. timestamp a \<ge> timestamp b)
      (filter (\<lambda>s. \<not> isInactiveSession (timestamp s)) ?sorted)"
    using srt by (rule sorted_wrt_filter)
  have inact: "sorted_wrt (\<lambda>a b. timestamp a \<ge> timestamp b)
      (filter (\<lambda>s. isInactiveSession (timestamp s)) ?sorted)"
    using srt by (rule sorted_wrt_filter)
  have eff: "timestamp s = (if updatedAt s \<noteq> 0 then updatedAt s else createdAt s)"
    by (simp add: timestamp_def or_number_def)
  show ?thesis
    unfolding activeSessions_reconcile inactiveSessions_reconcile
    using srt act inact eff by blast
qed

theorem lists_sorted_by_timestamp_witness:
  "activeSessions (reconcile (\<lambda>t. t < 150) ascii_toLowerCase [example_a_b, example_X] [])
     = [example_X]
   \<and> inactiveSessions (reconcile (\<lambda>t. t < 150) ascii_toLowerCase [example_a_b, example_X] [])
     = [example_a_b]
   \<and> timestamp example_a_b = 100
   \<and> sorted_wrt (\<lambda>a b. timestamp a \<ge> timestamp b)
         (sort_cmp compareSessions [example_a_b, example_X])"
proof -
  have m: "filter (matchesQuery ascii_toLowerCase []) [example_a_b, example_X]
      = [example_a_b, example_X]"
    by (simp add: matchesQuery_def)
  show ?thesis
    using lists_sorted_by_timestamp
      [of "\<lambda>t. t < 150" ascii_toLowerCase "[example_a_b, example_X]" "[]" example_a_b]
    unfolding m sort_examples by (simp add: timestamp_examples)
qed

text \<open>
  Claim C5. For every session shown in the list, if its title is absent then the
  displayed title is the string \<open>repoOwner/repoName\<close> of its repository, and the
  displayed title is never the empty string.
\<close>

theorem displayTitle_falls_back_to_repo:
  "(title s = None \<longrightarrow> displayTitle s = repoOwner s @ ''/'' @ repoName s)
   \<and> displayTitle s \<noteq> []"
  by (cases "title s") (simp_all add: displayTitle_def or_string_def repoInfo_def)

theorem displayTitle_falls_back_to_repo_witness:
  "title example_a_b = None \<and> displayTitle example_a_b = ''a/b''"
  using displayTitle_falls_back_to_repo [of example_a_b]
  by (simp add: example_a_b_def)

text \<open>
  Claim C8 as stated fails against the staleness test as the specification describes
  it: whether the two sessions are in the active list is the verdict of
  \<open>isInactiveSession\<close> on the timestamps 100 and 200, and the specification fixes no
  threshold. With the threshold 1000 both timestamps are older than it, the active list
  is empty and the inactive list is \<open>[X, a/b]\<close>.
\<close>

theorem example_active_list_counterexample:
  "activeSessions
     (reconcile (isInactiveSession_spec 1000) ascii_toLowerCase [example_a_b, example_X] [])
     = []
   \<and> inactiveSessions
     (reconcile (isInactiveSession_spec 1000) ascii_toLowerCase [example_a_b, example_X] [])
     = [example_X, example_a_b]
   \<and> activeSessions
     (reconcile (isInactiveSession_spec 1000) ascii_toLowerCase [example_a_b, example_X] [])
     \<noteq> [example_X, example_a_b]"
  unfolding activeSessions_reconcile inactiveSessions_reconcile
  by (simp add: matchesQuery_def sort_examples timestamp_examples isInactiveSession_spec_def)

text \<open>
  Claim C8, amended. For the collection of a title-less session of repository \<open>a/b\<close>
  updated at 100 and a session titled \<open>X\<close> of repository \<open>c/d\<close> updated at 200, and
  the empty query, the sorted sequence is \<open>[X, a/b]\<close> and the display title of the
  title-less session is \<open>a/b\<close>. The active list is \<open>[X, a/b]\<close> when neither timestamp
  is older than the staleness threshold; when only 100 is older it is \<open>[X]\<close> and the
  inactive list is \<open>[a/b]\<close>; when both are older it is empty and the inactive list is
  \<open>[X, a/b]\<close>. The fields the example leaves open are arbitrary.
\<close>

theorem example_lists_by_threshold:
  fixes i1 st1 i2 st2 :: string and c1 c2 :: int
  defines "first \<equiv> \<lparr>id_s = i1, title = None, repoOwner = ''a'', repoName = ''b'',
      status_s = st1, createdAt = c1, updatedAt = 100\<rparr>"
    and "second \<equiv> \<lparr>id_s = i2, title = Some ''X'', repoOwner = ''c'', repoName = ''d'',
      status_s = st2, createdAt = c2, updatedAt = 200\<rparr>"
  shows "activeSessions
           (reconcile (isInactiveSession_spec threshold) toLowerCase [first, second] [])
         = (if threshold \<le> 100 then [second, first]
            else if threshold \<le> 200 then [second] else [])
    \<and> inactiveSessions
           (reconcile (isInactiveSession_spec threshold) toLowerCase [first, second] [])
         = (if threshold \<le> 100 then []
            else if threshold \<le> 200 then [first] else [second, first])
    \<and> sort_cmp compareSessions (filter (matchesQuery toLowerCase []) [first, second])
         = [second, first]
    \<and> displayTitle first = ''a/b''
    \<and> displayTitle second = ''X''"
proof -
  have t: "timestamp first = 100" "timestamp second = 200"
    by (simp_all add: timestamp_def or_number_def first_def second_def)
  have srt: "sort_cmp compareSessions (filter (matchesQuery toLowerCase []) [first, second])
      = [second, first]"
    by (simp add: matchesQuery_def sort_cmp_def compareSessions_def t)
  have d: "displayTitle first = ''a/b''" "displayTitle second = ''X''"
    by (simp_all add: displayTitle_def or_string_def repoInfo_def first_def second_def)
  have a: "activeSessions
      (reconcile (isInactiveSession_spec threshold) toLowerCase [first, second] [])
      = (if threshold \<le> 100 then [second, first]
         else if threshold \<le> 200 then [second] else [])"
    unfolding activeSessions_reconcile srt
    by (simp add: t isInactiveSession_spec_def)
  have i: "inactiveSessions
      (reconcile (isInactiveSession_spec threshold) toLowerCase [first, second] [])
      = (if threshold \<le> 100 then []
         else if threshold \<le> 200 then [first] else [second, first])"
    unfolding inactiveSessions_reconcile srt
    by (simp add: t isInactiveSession_spec_def)
  from a i srt d show ?thesis by blast
qed

theorem example_lists_by_threshold_witness:
  "activeSessions
     (reconcile (isInactiveSession_spec 100) ascii_toLowerCase [example_a_b, example_X] [])
     = [example_X, example_a_b]
   \<and> inactiveSessions
     (reconcile (isInactiveSession_spec 100) ascii_toLowerCase [example_a_b, example_X] [])
     = []
   \<and> displayTitle example_a_b = ''a/b''"
  using example_lists_by_threshold
    [where threshold = 100 and toLowerCase = ascii_toLowerCase
       and ?i1.0 = "''s1''" and ?st1.0 = "''created''" and ?c1.0 = 50
       and ?i2.0 = "''s2''" and ?st2.0 = "''created''" and ?c2.0 = 60]
  by (simp add: example_a_b_def example_X_def)

section \<open>Properties of the session route\<close>

lemma NextResponse_json_accepted:
  "200 \<le> st \<Longrightarrow> st \<le> 599 \<Longrightarrow> \<not> null_body_status st \<Longrightarrow>
   NextResponse_json b st = Inr \<lparr>nr_body = b, nr_status = st\<rparr>"
  by (simp add: NextResponse_json_def)

lemma NextResponse_json_401_500:
  "NextResponse_json b 401 = Inr \<lparr>nr_body = b, nr_status = 401\<rparr>"
  "NextResponse_json b 500 = Inr \<lparr>nr_body = b, nr_status = 500\<rparr>"
  by (simp_all add: NextResponse_json_def null_body_status_def)

lemma DELETE_with_token:
  assumes "session = Some s" and "accessToken s = Some token" and "token \<noteq> []"
  shows "DELETE session ident controlPlaneFetch =
    (let call = \<lparr>cp_path = ''/sessions/'' @ ident, cp_method = ''DELETE''\<rparr> in
     case try_DELETE (controlPlaneFetch call) of
       Inr res \<Rightarrow> \<lparr>returned = Inr res, cp_calls = [call], console_error = []\<rparr>
     | Inl error \<Rightarrow>
         \<lparr>returned = Inr \<lparr>nr_body = JObj [(''error'', JStr ''Failed to delete session'')],
                            nr_status = 500\<rparr>,
          cp_calls = [call],
          console_error = [(''Failed to delete session:'', error)]\<rparr>)"
  using assms
  by (simp add: DELETE_def session_accessToken_def truthy_string_def NextResponse_json_401_500
      Let_def split: sum.splits)

text \<open>
  Claim C3. For every request whose caller has no access token (no session, a session
  without token, or an empty token), the handler returns status 401 with the body
  \<open>{"error":"Unauthorized"}\<close>, makes no call to the control-plane client and writes no
  log line, whatever that client would have answered.
\<close>

theorem DELETE_unauthorized:
  assumes "session = None
    \<or> (\<exists>s. session = Some s \<and> (accessToken s = None \<or> accessToken s = Some []))"
  shows "DELETE session ident controlPlaneFetch =
           \<lparr>returned = Inr \<lparr>nr_body = JObj [(''error'', JStr ''Unauthorized'')], nr_status = 401\<rparr>,
            cp_calls = [], console_error = []\<rparr>"
  using assms
  by (auto simp: DELETE_def session_accessToken_def truthy_string_def NextResponse_json_401_500)

theorem DELETE_unauthorized_witness:
  "DELETE None ''42'' (\<lambda>call. Inl ''unreachable'') =
     \<lparr>returned = Inr \<lparr>nr_body = JObj [(''error'', JStr ''Unauthorized'')], nr_status = 401\<rparr>,
      cp_calls = [], console_error = []\<rparr>
   \<and> DELETE (Some \<lparr>accessToken = Some []\<rparr>) ''42'' (\<lambda>call. Inl ''unreachable'') =
     \<lparr>returned = Inr \<lparr>nr_body = JObj [(''error'', JStr ''Unauthorized'')], nr_status = 401\<rparr>,
      cp_calls = [], console_error = []\<rparr>"
  using DELETE_unauthorized [of None "''42''" "\<lambda>call. Inl ''unreachable''"]
    DELETE_unauthorized
      [of "Some \<lparr>accessToken = Some []\<rparr>" "''42''" "\<lambda>call. Inl ''unreachable''"]
  by simp




text \<open>
  Claim C9. For every request of a caller with an access token, when the call to the
  control plane throws, the handler writes the cause to the error log and returns status
  500 with the fixed body \<open>{"error":"Failed to delete session"}\<close>: the response is the
  same for every cause.
\<close>

theorem DELETE_transport_exception:
  assumes "session = Some s" and "accessToken s = Some token" and "token \<noteq> []"
    and "controlPlaneFetch \<lparr>cp_path = ''/sessions/'' @ ident, cp_method = ''DELETE''\<rparr>
           = Inl cause"
  shows "returned (DELETE session ident controlPlaneFetch) =
           Inr \<lparr>nr_body = JObj [(''error'', JStr ''Failed to delete session'')], nr_status = 500\<rparr>
         \<and> console_error (DELETE session ident controlPlaneFetch) =
           [(''Failed to delete session:'', cause)]"
  unfolding DELETE_with_token [OF assms(1,2,3)] Let_def assms(4)
  by (simp add: try_DELETE_def)

theorem DELETE_transport_exception_witness:
  "returned (DELETE (Some \<lparr>accessToken = Some ''token''\<rparr>) ''42''
      (\<lambda>call. Inl ''ECONNREFUSED'')) =
     Inr \<lparr>nr_body = JObj [(''error'', JStr ''Failed to delete session'')], nr_status = 500\<rparr>
   \<and> console_error (DELETE (Some \<lparr>accessToken = Some ''token''\<rparr>) ''42''
      (\<lambda>call. Inl ''ECONNREFUSED'')) =
     [(''Failed to delete session:'', ''ECONNREFUSED'')]"
  using DELETE_transport_exception [of "Some \<lparr>accessToken = Some ''token''\<rparr>"
      "\<lparr>accessToken = Some ''token''\<rparr>" "''token''" "\<lambda>call. Inl ''ECONNREFUSED''" "''42''"
      "''ECONNREFUSED''"]
  by simp

section \<open>Properties of the session creation form\<close>

lemma split_unfold:
  "split s sep =
     takeWhile (\<lambda>c. c \<noteq> sep) s #
       (if sep \<in> set s then split (drop 1 (dropWhile (\<lambda>c. c \<noteq> sep) s)) sep else [])"
proof (cases "dropWhile (\<lambda>c. c \<noteq> sep) s")
  case Nil
  then have "sep \<notin> set s" by auto
  with Nil show ?thesis by (subst split.simps) (simp del: dropWhile_eq_Nil_conv)
next
  case (Cons a rest)
  then have "dropWhile (\<lambda>c. c \<noteq> sep) s \<noteq> []" by simp
  then have "sep \<in> set s" by auto
  with Cons show ?thesis by (subst split.simps) simp
qed

lemma element_split_0: "element (split s sep) 0 = Some (takeWhile (\<lambda>c. c \<noteq> sep) s)"
  by (subst split_unfold) (simp add: element_def)

lemma element_split_1:
  "element (split s sep) (Suc 0) =
     (if sep \<in> set s
      then Some (takeWhile (\<lambda>c. c \<noteq> sep) (drop 1 (dropWhile (\<lambda>c. c \<noteq> sep) s)))
      else None)"
proof (cases "sep \<in> set s")
  case True
  let ?rest = "drop 1 (dropWhile (\<lambda>c. c \<noteq> sep) s)"
  have "split s sep = takeWhile (\<lambda>c. c \<noteq> sep) s # split ?rest sep"
    using True by (subst split_unfold) simp
  also have "split ?rest sep =
      takeWhile (\<lambda>c. c \<noteq> sep) ?rest #
        (if sep \<in> set ?rest
         then split (drop 1 (dropWhile (\<lambda>c. c \<noteq> sep) ?rest)) sep else [])"
    by (rule split_unfold)
  finally show ?thesis using True by (simp add: element_def)
next
  case False
  then show ?thesis by (subst split_unfold) (simp add: element_def)
qed

lemma requests_handleSubmit:
  "selectedRepo st \<noteq> [] \<Longrightarrow>
   requests (handleSubmit st reply) =
     [\<lparr>url = ''/api/sessions'', method_r = ''POST'',
       headers = [(''Content-Type'', ''application/json'')],
       body = stringify_object
         [(''repoOwner'', map_option JStr (element (split (selectedRepo st) CHR ''/'') 0)),
          (''repoName'', map_option JStr (element (split (selectedRepo st) CHR ''/'') 1)),
          (''title'', if title_f st \<noteq> [] then Some (JStr (title_f st)) else None),
          (''model'', Some (JStr (selectedModel st)))]\<rparr>]"
  by (cases reply) (simp_all add: handleSubmit_def Let_def)

lemma body_handleSubmit:
  assumes "selectedRepo st \<noteq> []"
  shows "map body (requests (handleSubmit st reply)) =
    [JObj ([(''repoOwner'', JStr (spec_owner (selectedRepo st)))]
       @ (if CHR ''/'' \<in> set (selectedRepo st)
          then [(''repoName'',
                 JStr (takeWhile (\<lambda>c. c \<noteq> CHR ''/'') (spec_name (selectedRepo st))))]
          else [])
       @ (if title_f st \<noteq> [] then [(''title'', JStr (title_f st))] else [])
       @ [(''model'', JStr (selectedModel st))])]"
  using assms
  by (simp add: requests_handleSubmit element_split_0 element_split_1
      stringify_object_def spec_name_def spec_owner_def)

lemma posted_body:
  "posted run k = map (\<lambda>b. property b k) (map body (requests run))"
  by (simp add: posted_def)

lemma posted_repoOwner:
  "selectedRepo st \<noteq> [] \<Longrightarrow>
   posted (handleSubmit st reply) ''repoOwner'' = [Some (JStr (spec_owner (selectedRepo st)))]"
  unfolding posted_body by (simp add: body_handleSubmit)

lemma posted_repoName:
  "selectedRepo st \<noteq> [] \<Longrightarrow>
   posted (handleSubmit st reply) ''repoName'' =
     [if CHR ''/'' \<in> set (selectedRepo st)
      then Some (JStr (takeWhile (\<lambda>c. c \<noteq> CHR ''/'') (spec_name (selectedRepo st))))
      else None]"
  unfolding posted_body by (simp add: body_handleSubmit)

lemma posted_title:
  "selectedRepo st \<noteq> [] \<Longrightarrow>
   posted (handleSubmit st reply) ''title'' =
     [if title_f st \<noteq> [] then Some (JStr (title_f st)) else None]"
  unfolding posted_body by (simp add: body_handleSubmit)

lemma posted_model:
  "selectedRepo st \<noteq> [] \<Longrightarrow>
   posted (handleSubmit st reply) ''model'' = [Some (JStr (selectedModel st))]"
  unfolding posted_body by (simp add: body_handleSubmit)

lemma keys_body_handleSubmit:
  assumes "selectedRepo st \<noteq> []" and "title_f st = []"
  shows "map keys_of (map body (requests (handleSubmit st reply))) =
    [[''repoOwner''] @ (if CHR ''/'' \<in> set (selectedRepo st) then [''repoName''] else [])
       @ [''model'']]"
  unfolding body_handleSubmit [OF assms(1)] using assms(2) by simp

text \<open>
  Claim C4. For every submission of the form with no repository selected, the handler
  sets the message \<open>Please select a repository\<close>, leaves the rest of the form as it is,
  issues no request and does not navigate.
\<close>

theorem handleSubmit_without_repository:
  assumes "selectedRepo st = []"
  shows "handleSubmit st reply =
           \<lparr>state = st\<lparr>error_f := ''Please select a repository''\<rparr>, requests = [],
            pushed = None\<rparr>"
  using assms by (simp add: handleSubmit_def)

theorem handleSubmit_without_repository_witness:
  "handleSubmit initial_form (Created ''7'') =
     \<lparr>state = initial_form\<lparr>error_f := ''Please select a repository''\<rparr>, requests = [],
      pushed = None\<rparr>"
  using handleSubmit_without_repository [of initial_form "Created ''7''"]
  by (simp add: initial_form_def)

text \<open>
  Claim C7 as stated fails: the code splits on every \<open>/\<close> and takes the first two
  pieces. For the selected value \<open>a/b/c\<close> the posted \<open>repoName\<close> is \<open>b\<close>, not the text
  \<open>b/c\<close> after the first \<open>/\<close>; for \<open>octocat\<close>, which has no \<open>/\<close>, no \<open>repoName\<close>
  is posted at all.
\<close>

theorem split_on_first_slash_counterexample:
  "posted (handleSubmit (initial_form\<lparr>selectedRepo := ''a/b/c''\<rparr>) Throws) ''repoName''
     = [Some (JStr ''b'')]
   \<and> spec_name ''a/b/c'' = ''b/c''
   \<and> posted (handleSubmit (initial_form\<lparr>selectedRepo := ''a/b/c''\<rparr>) Throws) ''repoName''
     \<noteq> [Some (JStr (spec_name ''a/b/c''))]
   \<and> posted (handleSubmit (initial_form\<lparr>selectedRepo := ''octocat''\<rparr>) Throws) ''repoName''
     = [None]"
  by code_simp

text \<open>
  Claim C7, amended. For every non-empty selected value, the form posts one request to
  \<open>/api/sessions\<close> whose body has \<open>repoOwner\<close> equal to the text before the first \<open>/\<close>;
  \<open>repoName\<close> equal to the text between the first and the second \<open>/\<close> (all the text
  after the first \<open>/\<close> when there is no second one), and no \<open>repoName\<close> when the value
  has no \<open>/\<close>; the title when it is not empty; and the selected model, which is
  \<open>claude-haiku-4-5\<close> in the initial form.
\<close>

theorem handleSubmit_posts:
  assumes "selectedRepo st \<noteq> []"
  shows "map url (requests (handleSubmit st reply)) = [''/api/sessions'']
    \<and> map method_r (requests (handleSubmit st reply)) = [''POST'']
    \<and> posted (handleSubmit st reply) ''repoOwner'' = [Some (JStr (spec_owner (selectedRepo st)))]
    \<and> posted (handleSubmit st reply) ''repoName'' =
        [if CHR ''/'' \<in> set (selectedRepo st)
         then Some (JStr (takeWhile (\<lambda>c. c \<noteq> CHR ''/'') (spec_name (selectedRepo st))))
         else None]
    \<and> (CHR ''/'' \<in> set (selectedRepo st) \<and> CHR ''/'' \<notin> set (spec_name (selectedRepo st))
         \<longrightarrow> posted (handleSubmit st reply) ''repoName''
               = [Some (JStr (spec_name (selectedRepo st)))])
    \<and> posted (handleSubmit st reply) ''title'' =
        [if title_f st \<noteq> [] then Some (JStr (title_f st)) else None]
    \<and> posted (handleSubmit st reply) ''model'' = [Some (JStr (selectedModel st))]
    \<and> selectedModel initial_form = ''claude-haiku-4-5''"
proof -
  let ?v = "selectedRepo st"
  let ?run = "handleSubmit st reply"
  have nm: "CHR ''/'' \<notin> set (spec_name ?v) \<Longrightarrow>
      takeWhile (\<lambda>c. c \<noteq> CHR ''/'') (spec_name ?v) = spec_name ?v"
    by auto
  have u: "map url (requests ?run) = [''/api/sessions'']"
    and m: "map method_r (requests ?run) = [''POST'']"
    using assms by (simp_all add: requests_handleSubmit)
  note owner = posted_repoOwner [OF assms, of reply]
  note name = posted_repoName [OF assms, of reply]
  note ttl = posted_title [OF assms, of reply]
  note model = posted_model [OF assms, of reply]
  have init: "selectedModel initial_form = ''claude-haiku-4-5''"
    by (simp add: initial_form_def)
  have one: "CHR ''/'' \<in> set ?v \<and> CHR ''/'' \<notin> set (spec_name ?v)
      \<longrightarrow> posted ?run ''repoName'' = [Some (JStr (spec_name ?v))]"
    using name nm by simp
  from u m owner name one ttl model init show ?thesis by blast
qed

theorem handleSubmit_posts_witness:
  "posted (handleSubmit (initial_form\<lparr>selectedRepo := ''octo/cat''\<rparr>) (Created ''7''))
      ''repoOwner'' = [Some (JStr ''octo'')]
   \<and> posted (handleSubmit (initial_form\<lparr>selectedRepo := ''octo/cat''\<rparr>) (Created ''7''))
      ''repoName'' = [Some (JStr ''cat'')]
   \<and> posted (handleSubmit (initial_form\<lparr>selectedRepo := ''octo/cat''\<rparr>) (Created ''7''))
      ''model'' = [Some (JStr ''claude-haiku-4-5'')]"
proof -
  have h: "selectedRepo (initial_form\<lparr>selectedRepo := ''octo/cat''\<rparr>) \<noteq> []" by simp
  have e: "spec_owner ''octo/cat'' = ''octo''" "spec_name ''octo/cat'' = ''cat''"
    by (simp_all add: spec_owner_def spec_name_def)
  show ?thesis
    using handleSubmit_posts [OF h, of "Created ''7''"] e
    by (simp add: initial_form_def)
qed

text \<open>
  Claim C10. A title that is the empty string is treated as an absent one: a session
  whose title is the empty string is displayed as \<open>repoOwner/repoName\<close>, exactly as with
  no title; and a submission whose title input is empty posts a body with no \<open>title\<close>
  property.
\<close>

theorem empty_title_treated_as_absent:
  "(title s = Some [] \<longrightarrow> displayTitle s = repoOwner s @ ''/'' @ repoName s)
   \<and> displayTitle (s\<lparr>title := Some []\<rparr>) = displayTitle (s\<lparr>title := None\<rparr>)
   \<and> (title_f st = [] \<longrightarrow>
        (\<forall>request \<in> set (requests (handleSubmit st reply)).
           ''title'' \<notin> set (keys_of (body request))))
   \<and> (title_f st = [] \<and> selectedRepo st \<noteq> [] \<longrightarrow>
        posted (handleSubmit st reply) ''title'' = [None])"
proof -
  have d1: "title s = Some [] \<longrightarrow> displayTitle s = repoOwner s @ ''/'' @ repoName s"
    by (simp add: displayTitle_def or_string_def repoInfo_def)
  have d2: "displayTitle (s\<lparr>title := Some []\<rparr>) = displayTitle (s\<lparr>title := None\<rparr>)"
    by (simp add: displayTitle_def or_string_def repoInfo_def)
  have k: "\<forall>request \<in> set (requests (handleSubmit st reply)).
      ''title'' \<notin> set (keys_of (body request))" if t: "title_f st = []"
  proof (cases "selectedRepo st = []")
    case True
    then show ?thesis by (simp add: handleSubmit_def)
  next
    case False
    have "\<forall>ks \<in> set (map keys_of (map body (requests (handleSubmit st reply)))).
        ''title'' \<notin> set ks"
      unfolding keys_body_handleSubmit [OF False t] by simp
    then show ?thesis by simp
  qed
  have p: "posted (handleSubmit st reply) ''title'' = [None]"
    if "title_f st = []" and "selectedRepo st \<noteq> []"
    using that posted_title [of st reply] by simp
  from d1 d2 k p show ?thesis by blast
qed

theorem empty_title_treated_as_absent_witness:
  "displayTitle (example_a_b\<lparr>title := Some []\<rparr>) = ''a/b''
   \<and> posted (handleSubmit (initial_form\<lparr>selectedRepo := ''a/b''\<rparr>) Throws) ''title'' = [None]
   \<and> map keys_of (map body (requests (handleSubmit (initial_form\<lparr>selectedRepo := ''a/b''\<rparr>) Throws)))
     = [[''repoOwner'', ''repoName'', ''model'']]"
proof -
  have k: "map keys_of
      (map body (requests (handleSubmit (initial_form\<lparr>selectedRepo := ''a/b''\<rparr>) Throws)))
      = [[''repoOwner'', ''repoName'', ''model'']]"
  proof -
    have h: "selectedRepo (initial_form\<lparr>selectedRepo := ''a/b''\<rparr>) \<noteq> []" by simp
    have t: "title_f (initial_form\<lparr>selectedRepo := ''a/b''\<rparr>) = []"
      by (simp add: initial_form_def)
    show ?thesis using keys_body_handleSubmit [OF h t, of Throws] by simp
  qed
  show ?thesis
    using empty_title_treated_as_absent
      [of "example_a_b\<lparr>title := Some []\<rparr>" "initial_form\<lparr>selectedRepo := ''a/b''\<rparr>" Throws] k
    by (simp add: example_a_b_def initial_form_def)
qed

end
